theory Spec2Isabelle
  imports Complex_Main "HOL-Library.Word"
begin

section \<open>Data of the thermal hardware service\<close>

text \<open>
  The JNI bridge \<^verbatim>\<open>com_android_server_HardwarePropertiesManagerService.cpp\<close> only
  copies floating-point values and never computes with them, so the carrier of
  \<^verbatim>\<open>float\<close> / \<^verbatim>\<open>jfloat\<close> is a type parameter \<open>'f\<close>; \<open>0\<close> of that type is
  the content of a freshly allocated Java float array. \<^verbatim>\<open>int\<close> and \<^verbatim>\<open>jint\<close> are
  32-bit words, \<^verbatim>\<open>uint64_t\<close> and \<^verbatim>\<open>jlong\<close> are 64-bit words, \<^verbatim>\<open>size_t\<close> indices
  are natural numbers (a \<^verbatim>\<open>hidl_vec\<close> has fewer than \<open>2 ^ 32\<close> elements, so no
  index of the file wraps).
\<close>

datatype ThermalStatusCode = SUCCESS | FAILURE

record ThermalStatus =
  code :: ThermalStatusCode
  debugMessage :: string

text \<open>Of each reading, the fields that the bridge reads.\<close>

record 'f CoolingDevice =
  currentValue :: 'f

record 'f Temperature =
  type :: "32 word"
  currentValue :: 'f
  throttlingThreshold :: 'f
  shutdownThreshold :: 'f
  vrThrottlingThreshold :: 'f

record CpuUsage =
  active :: "64 word"
  total :: "64 word"
  isOnline :: bool

text \<open>The \<^verbatim>\<open>Status\<close> of a remote call, seen through \<^verbatim>\<open>isOk()\<close> and \<^verbatim>\<open>exceptionCode()\<close>.\<close>

record Status =
  isOk :: bool
  exceptionCode :: "32 word"

text \<open>
  Modelled from the spec: the generated \<^verbatim>\<open>IThermal\<close> proxy is not part of the file. Each
  of its three queries reports a status code plus a list through the callback, or the
  call mechanism itself reports failure and the callback is never run.
\<close>

datatype 'a hal_return =
  Invoked ThermalStatus "'a list"
| NotInvoked Status

fun getStatus :: "'a hal_return \<Rightarrow> Status" where
  "getStatus (Invoked status xs) = \<lparr>isOk = True, exceptionCode = 0\<rparr>"
| "getStatus (NotInvoked s) = s"

type_synonym IThermal = nat

section \<open>The temperature source constants\<close>

definition TEMPERATURE_CURRENT :: "32 word" where
  "TEMPERATURE_CURRENT = 0"

definition TEMPERATURE_THROTTLING :: "32 word" where
  "TEMPERATURE_THROTTLING = 1"

definition TEMPERATURE_SHUTDOWN :: "32 word" where
  "TEMPERATURE_SHUTDOWN = 2"

definition TEMPERATURE_THROTTLING_BELOW_VR_MIN :: "32 word" where
  "TEMPERATURE_THROTTLING_BELOW_VR_MIN = 3"

section \<open>Global state and the log\<close>

type_synonym jclass = nat
type_synonym jmethodID = nat

record CpuUsageInfoClassInfo =
  clazz :: jclass
  initMethod :: "jmethodID option"

datatype log_arg = Str string | Dec "32 word"

text \<open>A line written by \<^verbatim>\<open>ALOGE\<close>: the format string and its arguments.\<close>

type_synonym log_line = "string \<times> log_arg list"

text \<open>
  The file-level variables. \<^verbatim>\<open>register_android_server_HardwarePropertiesManagerService\<close>
  runs once when the library is loaded: it sets \<^verbatim>\<open>gThermalModule\<close> to \<^verbatim>\<open>nullptr\<close> and
  resolves the class and its constructor. The native methods run in the states that follow
  it; a method id that is \<open>None\<close> is the null \<^verbatim>\<open>jmethodID\<close>.
\<close>

record globals =
  gCpuUsageInfoClassInfo :: CpuUsageInfoClassInfo
  gThermalModule :: "IThermal option"
  logcat :: "log_line list"

definition ALOGE :: "string \<Rightarrow> log_arg list \<Rightarrow> globals \<Rightarrow> globals" where
  "ALOGE fmt args g = g\<lparr>logcat := logcat g @ [(fmt, args)]\<rparr>"

section \<open>Memory and JNI arrays\<close>

text \<open>
  A variable-length array \<^verbatim>\<open>float values[n]\<close> is a list of \<open>n\<close> cells, \<open>None\<close> while
  a cell is indeterminate. A write outside it, a read of an indeterminate cell and a JNI
  array access out of range are faults, so that a claim of safety is a claim that the
  result is \<open>Inr\<close>.
\<close>

datatype fault = OutOfBoundsWrite | OutOfBoundsRead | IndeterminateRead | ArrayIndexOutOfBounds

definition vla :: "nat \<Rightarrow> 'a option list" where
  "vla n = replicate n None"

definition store :: "'a option list \<Rightarrow> nat \<Rightarrow> 'a \<Rightarrow> fault + 'a option list" where
  "store values i v = (if i < length values then Inr (values[i := Some v]) else Inl OutOfBoundsWrite)"

definition NewFloatArray :: "nat \<Rightarrow> ('f::zero) list" where
  "NewFloatArray n = replicate n 0"

definition SetFloatArrayRegion :: "'f list \<Rightarrow> nat \<Rightarrow> nat \<Rightarrow> 'f option list \<Rightarrow> fault + 'f list" where
  "SetFloatArrayRegion array start len buf =
     (if length array < start + len then Inl ArrayIndexOutOfBounds
      else if length buf < len then Inl OutOfBoundsRead
      else if None \<in> set (take len buf) then Inl IndeterminateRead
      else Inr (take start array @ map the (take len buf) @ drop (start + len) array))"

text \<open>
  Modelled from the spec: the caller-side class \<^verbatim>\<open>android.os.CpuUsageInfo\<close> is not part
  of the file; its two-argument constructor builds an object from the (active, total) pair.
\<close>

record CpuUsageInfo =
  mActive :: "64 word"
  mTotal :: "64 word"

definition NewObject :: "jclass \<Rightarrow> jmethodID \<Rightarrow> 64 word \<Rightarrow> 64 word \<Rightarrow> CpuUsageInfo" where
  "NewObject c m a t = \<lparr>mActive = a, mTotal = t\<rparr>"

text \<open>An object array holds references; \<open>None\<close> is \<^verbatim>\<open>null\<close>.\<close>

definition NewObjectArray :: "nat \<Rightarrow> jclass \<Rightarrow> 'o option \<Rightarrow> 'o option list" where
  "NewObjectArray n c init = replicate n init"

definition SetObjectArrayElement :: "'o option list \<Rightarrow> nat \<Rightarrow> 'o \<Rightarrow> fault + 'o option list" where
  "SetObjectArrayElement array i obj =
     (if i < length array then Inr (array[i := Some obj]) else Inl ArrayIndexOutOfBounds)"

section \<open>The native methods\<close>

definition nativeInit :: "(string \<Rightarrow> IThermal option) \<Rightarrow> globals \<Rightarrow> globals" where
  "nativeInit getService g =
     (let g1 = (if gThermalModule g = None
                then g\<lparr>gThermalModule := getService ''thermal''\<rparr> else g)
      in if gThermalModule g1 = None
         then ALOGE ''Unable to get Thermal service.'' [] g1 else g1)"

text \<open>
  The three callbacks differ in their message only: on \<open>SUCCESS\<close> the reply is moved
  into \<^verbatim>\<open>list\<close>, otherwise the debug message is logged and \<^verbatim>\<open>list\<close> stays as it was.
\<close>

definition callback :: "string \<Rightarrow> ThermalStatus \<Rightarrow> 'a list \<Rightarrow> 'a list \<times> globals \<Rightarrow> 'a list \<times> globals" where
  "callback fmt status xs = (\<lambda>(list, g).
     if code status = SUCCESS then (xs, g)
     else (list, ALOGE fmt [Str (debugMessage status)] g))"

text \<open>
  A remote call with a callback, followed by the check of its status: \<^verbatim>\<open>list\<close> starts
  empty.
\<close>

definition remote_call :: "string \<Rightarrow> string \<Rightarrow> 'a hal_return \<Rightarrow> globals \<Rightarrow> 'a list \<times> globals" where
  "remote_call cb_fmt status_fmt r g =
     (let (list, g1) = (case r of Invoked status xs \<Rightarrow> callback cb_fmt status xs ([], g)
                                | NotInvoked s \<Rightarrow> ([], g));
          status = getStatus r
      in if \<not> isOk status then (list, ALOGE status_fmt [Dec (exceptionCode status)] g1)
         else (list, g1))"

function fanSpeeds_loop :: "'f CoolingDevice list \<Rightarrow> 'f option list \<Rightarrow> nat \<Rightarrow> fault + 'f option list" where
  "fanSpeeds_loop list values i =
     (if i < length list then
        (case store values i (CoolingDevice.currentValue (list ! i)) of
           Inl e \<Rightarrow> Inl e
         | Inr values' \<Rightarrow> fanSpeeds_loop list values' (i + 1))
      else Inr values)"
  by pat_completeness auto
termination
  by (relation "measure (\<lambda>(list, values, i). length list - i)") auto

declare fanSpeeds_loop.simps [simp del]

definition nativeGetFanSpeeds ::
  "(IThermal \<Rightarrow> ('f::zero) CoolingDevice hal_return) \<Rightarrow> globals \<Rightarrow> (fault + 'f list) \<times> globals" where
  "nativeGetFanSpeeds getCoolingDevices g =
     (case gThermalModule g of
        None \<Rightarrow> (Inr (NewFloatArray 0),
                 ALOGE ''Couldn't get fan speeds because of HAL error.'' [] g)
      | Some m \<Rightarrow>
          (let (list, g1) = remote_call ''Couldn't get fan speeds because of HAL error: %s''
                              ''getCoolingDevices failed status: %d'' (getCoolingDevices m) g
           in (case fanSpeeds_loop list (vla (length list)) 0 of
                 Inl e \<Rightarrow> (Inl e, g1)
               | Inr values \<Rightarrow>
                   (SetFloatArrayRegion (NewFloatArray (length list)) 0 (length list) values, g1))))"

text \<open>
  The body of the loop of \<^verbatim>\<open>nativeGetDeviceTemperatures\<close>: the \<^verbatim>\<open>switch\<close> has four
  cases and no default.
\<close>

definition temperatures_body ::
  "32 word \<Rightarrow> 32 word \<Rightarrow> 'f Temperature \<Rightarrow> 'f option list \<Rightarrow> nat \<Rightarrow> fault + ('f option list \<times> nat)" where
  "temperatures_body type' source t values len =
     (if Temperature.type t = type' then
        (if source = TEMPERATURE_CURRENT then
           (case store values len (Temperature.currentValue t) of
              Inl e \<Rightarrow> Inl e | Inr values' \<Rightarrow> Inr (values', len + 1))
         else if source = TEMPERATURE_THROTTLING then
           (case store values len (throttlingThreshold t) of
              Inl e \<Rightarrow> Inl e | Inr values' \<Rightarrow> Inr (values', len + 1))
         else if source = TEMPERATURE_SHUTDOWN then
           (case store values len (shutdownThreshold t) of
              Inl e \<Rightarrow> Inl e | Inr values' \<Rightarrow> Inr (values', len + 1))
         else if source = TEMPERATURE_THROTTLING_BELOW_VR_MIN then
           (case store values len (vrThrottlingThreshold t) of
              Inl e \<Rightarrow> Inl e | Inr values' \<Rightarrow> Inr (values', len + 1))
         else Inr (values, len))
      else Inr (values, len))"

function temperatures_loop ::
  "32 word \<Rightarrow> 32 word \<Rightarrow> 'f Temperature list \<Rightarrow> 'f option list \<Rightarrow> nat \<Rightarrow> nat
     \<Rightarrow> fault + ('f option list \<times> nat)" where
  "temperatures_loop type' source list values len i =
     (if i < length list then
        (case temperatures_body type' source (list ! i) values len of
           Inl e \<Rightarrow> Inl e
         | Inr (values', len') \<Rightarrow> temperatures_loop type' source list values' len' (i + 1))
      else Inr (values, len))"
  by pat_completeness auto
termination
  by (relation "measure (\<lambda>(type', source, list, values, len, i). length list - i)") auto

declare temperatures_loop.simps [simp del]

definition nativeGetDeviceTemperatures ::
  "(IThermal \<Rightarrow> ('f::zero) Temperature hal_return) \<Rightarrow> 32 word \<Rightarrow> 32 word \<Rightarrow> globals
     \<Rightarrow> (fault + 'f list) \<times> globals" where
  "nativeGetDeviceTemperatures getTemperatures type' source g =
     (case gThermalModule g of
        None \<Rightarrow> (Inr (NewFloatArray 0),
                 ALOGE ''Couldn't get device temperatures because of HAL error.'' [] g)
      | Some m \<Rightarrow>
          (let (list, g1) = remote_call ''Couldn't get temperatures because of HAL error: %s''
                              ''getDeviceTemperatures failed status: %d'' (getTemperatures m) g
           in (case temperatures_loop type' source list (vla (length list)) 0 0 of
                 Inl e \<Rightarrow> (Inl e, g1)
               | Inr (values, len) \<Rightarrow>
                   (SetFloatArrayRegion (NewFloatArray len) 0 len values, g1))))"

function cpuUsages_loop ::
  "jclass \<Rightarrow> jmethodID \<Rightarrow> CpuUsage list \<Rightarrow> CpuUsageInfo option list \<Rightarrow> nat
     \<Rightarrow> fault + CpuUsageInfo option list" where
  "cpuUsages_loop c init list cpuUsages i =
     (if i < length list then
        (if isOnline (list ! i) then
           (case SetObjectArrayElement cpuUsages i
                   (NewObject c init (active (list ! i)) (total (list ! i))) of
              Inl e \<Rightarrow> Inl e
            | Inr cpuUsages' \<Rightarrow> cpuUsages_loop c init list cpuUsages' (i + 1))
         else cpuUsages_loop c init list cpuUsages (i + 1))
      else Inr cpuUsages)"
  by pat_completeness auto
termination
  by (relation "measure (\<lambda>(c, init, list, cpuUsages, i). length list - i)") auto

declare cpuUsages_loop.simps [simp del]

text \<open>
  The guard \<^verbatim>\<open>gThermalModule == nullptr || !gCpuUsageInfoClassInfo.initMethod\<close> is the
  last case; in the first, \<open>init\<close> is the method id that \<^verbatim>\<open>NewObject\<close> is given.
\<close>

definition nativeGetCpuUsages ::
  "(IThermal \<Rightarrow> CpuUsage hal_return) \<Rightarrow> globals \<Rightarrow> (fault + CpuUsageInfo option list) \<times> globals" where
  "nativeGetCpuUsages getCpuUsages g =
     (case (gThermalModule g, initMethod (gCpuUsageInfoClassInfo g)) of
        (Some m, Some init) \<Rightarrow>
          (let (list, g1) = remote_call ''Couldn't get CPU usages because of HAL error: %s''
                              ''getCpuUsages failed status: %d'' (getCpuUsages m) g;
               c = clazz (gCpuUsageInfoClassInfo g1)
           in (cpuUsages_loop c init list (NewObjectArray (length list) c None) 0, g1))
      | _ \<Rightarrow> (Inr (NewObjectArray 0 (clazz (gCpuUsageInfoClassInfo g)) None),
              ALOGE ''Couldn't get CPU usages because of HAL error.'' [] g))"

section \<open>Notions used in the statements\<close>

text \<open>
  A remote call reports success when its callback ran with the code \<open>SUCCESS\<close>; a
  query finds the service unavailable when the handle is unbound or the call does not
  report success.
\<close>

definition reports_success :: "'a hal_return \<Rightarrow> bool" where
  "reports_success r = (case r of Invoked status xs \<Rightarrow> code status = SUCCESS | NotInvoked s \<Rightarrow> False)"

definition unavailable :: "globals \<Rightarrow> (IThermal \<Rightarrow> 'a hal_return) \<Rightarrow> bool" where
  "unavailable g call = (case gThermalModule g of None \<Rightarrow> True | Some m \<Rightarrow> \<not> reports_success (call m))"

text \<open>
  What one iteration of the loop of \<^verbatim>\<open>nativeGetDeviceTemperatures\<close> appends to the
  buffer, if anything.
\<close>

definition written :: "32 word \<Rightarrow> 32 word \<Rightarrow> 'f Temperature \<Rightarrow> 'f option" where
  "written type' source t =
     (if Temperature.type t = type' then
        (if source = TEMPERATURE_CURRENT then Some (Temperature.currentValue t)
         else if source = TEMPERATURE_THROTTLING then Some (throttlingThreshold t)
         else if source = TEMPERATURE_SHUTDOWN then Some (shutdownThreshold t)
         else if source = TEMPERATURE_THROTTLING_BELOW_VR_MIN then Some (vrThrottlingThreshold t)
         else None)
      else None)"

section \<open>Example data\<close>

definition ok :: ThermalStatus where
  "ok = \<lparr>code = SUCCESS, debugMessage = []\<rparr>"

definition example_globals :: globals where
  "example_globals =
     \<lparr>gCpuUsageInfoClassInfo = \<lparr>clazz = 1, initMethod = Some 2\<rparr>,
      gThermalModule = Some 7, logcat = []\<rparr>"

definition example_devices :: "real CoolingDevice list" where
  "example_devices = [\<lparr>CoolingDevice.currentValue = 12.5\<rparr>, \<lparr>CoolingDevice.currentValue = 30\<rparr>]"

definition example_temperatures :: "real Temperature list" where
  "example_temperatures =
     [\<lparr>type = 1, currentValue = 40, throttlingThreshold = 60, shutdownThreshold = 90,
        vrThrottlingThreshold = 55\<rparr>,
      \<lparr>type = 2, currentValue = 20, throttlingThreshold = 70, shutdownThreshold = 95,
        vrThrottlingThreshold = 65\<rparr>]"

definition AAB_temperatures :: "real Temperature list" where
  "AAB_temperatures =
     [\<lparr>type = 4, currentValue = 1, throttlingThreshold = 2, shutdownThreshold = 3,
        vrThrottlingThreshold = 4\<rparr>,
      \<lparr>type = 4, currentValue = 5, throttlingThreshold = 6, shutdownThreshold = 7,
        vrThrottlingThreshold = 8\<rparr>,
      \<lparr>type = 5, currentValue = 9, throttlingThreshold = 10, shutdownThreshold = 11,
        vrThrottlingThreshold = 12\<rparr>]"

definition failure :: ThermalStatus where
  "failure = \<lparr>code = FAILURE, debugMessage = ''sensor offline''\<rparr>"

definition unbound_globals :: globals where
  "unbound_globals =
     \<lparr>gCpuUsageInfoClassInfo = \<lparr>clazz = 1, initMethod = Some 2\<rparr>,
      gThermalModule = None, logcat = []\<rparr>"

definition unresolved_globals :: globals where
  "unresolved_globals =
     \<lparr>gCpuUsageInfoClassInfo = \<lparr>clazz = 0, initMethod = None\<rparr>,
      gThermalModule = Some 7, logcat = []\<rparr>"

definition example_usages :: "CpuUsage list" where
  "example_usages =
     [\<lparr>active = 100, total = 200, isOnline = True\<rparr>,
      \<lparr>active = 5, total = 10, isOnline = False\<rparr>]"

definition dead_object :: Status where
  "dead_object = \<lparr>isOk = False, exceptionCode = - 32\<rparr>"

section \<open>The loops\<close>

lemma take_Suc_update:
  "n < length xs \<Longrightarrow> take (Suc n) (xs[n := x]) = take n xs @ [x]"
  by (simp add: take_Suc_conv_app_nth)

lemma fanSpeeds_loop_eq:
  "i \<le> length list \<Longrightarrow> length vs = length list \<Longrightarrow>
   fanSpeeds_loop list vs i =
     Inr (take i vs @ map (\<lambda>d. Some (CoolingDevice.currentValue d)) (drop i list))"
proof (induction list vs i rule: fanSpeeds_loop.induct)
  case (1 list vs i)
  show ?case
  proof (cases "i < length list")
    case True
    let ?v = "CoolingDevice.currentValue (list ! i)"
    have st: "store vs i ?v = Inr (vs[i := Some ?v])"
      using True "1.prems" by (simp add: store_def)
    have ih: "fanSpeeds_loop list (vs[i := Some ?v]) (Suc i) =
        Inr (take (Suc i) (vs[i := Some ?v]) @
             map (\<lambda>d. Some (CoolingDevice.currentValue d)) (drop (Suc i) list))"
      using "1.IH" [OF True st] True "1.prems" by simp
    have tk: "take (Suc i) (vs[i := Some ?v]) = take i vs @ [Some ?v]"
      using True "1.prems" by (simp add: take_Suc_update)
    have dr: "drop i list = list ! i # drop (Suc i) list"
      using True by (simp add: Cons_nth_drop_Suc)
    show ?thesis
      by (subst fanSpeeds_loop.simps) (simp add: True st ih tk dr)
  next
    case False
    with "1.prems" show ?thesis
      by (subst fanSpeeds_loop.simps) simp
  qed
qed

lemma temperatures_body_written:
  "temperatures_body type' source t vs len =
     (case written type' source t of
        None \<Rightarrow> Inr (vs, len)
      | Some v \<Rightarrow> (case store vs len v of Inl e \<Rightarrow> Inl e | Inr vs' \<Rightarrow> Inr (vs', len + 1)))"
  by (simp add: temperatures_body_def written_def)

lemma temperatures_loop_eq:
  "len \<le> i \<Longrightarrow> i \<le> length list \<Longrightarrow> length vs = length list \<Longrightarrow>
   \<exists>vs'. temperatures_loop type' source list vs len i =
       Inr (vs', len + length (List.map_filter (written type' source) (drop i list)))
     \<and> length vs' = length list
     \<and> take (len + length (List.map_filter (written type' source) (drop i list))) vs' =
         take len vs @ map Some (List.map_filter (written type' source) (drop i list))"
proof (induction type' source list vs len i rule: temperatures_loop.induct)
  case (1 type' source list vs len i)
  let ?ws = "\<lambda>k. List.map_filter (written type' source) (drop k list)"
  show ?case
  proof (cases "i < length list")
    case False
    with "1.prems" show ?thesis
      by (subst temperatures_loop.simps) simp
  next
    case True
    have dr: "drop i list = list ! i # drop (Suc i) list"
      using True by (simp add: Cons_nth_drop_Suc)
    show ?thesis
    proof (cases "written type' source (list ! i)")
      case None
      have body: "temperatures_body type' source (list ! i) vs len = Inr (vs, len)"
        by (simp add: temperatures_body_written None)
      have ws: "?ws i = ?ws (Suc i)"
        by (simp add: dr None)
      from "1.IH" [OF True body refl] "1.prems" True
      obtain vs' where r:
        "temperatures_loop type' source list vs len (Suc i) = Inr (vs', len + length (?ws (Suc i)))"
        "length vs' = length list"
        "take (len + length (?ws (Suc i))) vs' = take len vs @ map Some (?ws (Suc i))"
        by auto
      have "temperatures_loop type' source list vs len i = Inr (vs', len + length (?ws i))"
        by (subst temperatures_loop.simps) (simp add: True body r(1) ws)
      with r(2,3) ws show ?thesis by simp
    next
      case (Some v)
      have st: "store vs len v = Inr (vs[len := Some v])"
        using True "1.prems" by (simp add: store_def)
      have body: "temperatures_body type' source (list ! i) vs len =
          Inr (vs[len := Some v], len + 1)"
        by (simp add: temperatures_body_written Some st)
      have tk: "take (Suc len) (vs[len := Some v]) = take len vs @ [Some v]"
        using True "1.prems" by (simp add: take_Suc_update)
      have ws: "?ws i = v # ?ws (Suc i)"
        by (simp add: dr Some)
      from "1.IH" [OF True body refl] "1.prems" True
      obtain vs' where r:
        "temperatures_loop type' source list (vs[len := Some v]) (Suc len) (Suc i) =
           Inr (vs', Suc len + length (?ws (Suc i)))"
        "length vs' = length list"
        "take (Suc len + length (?ws (Suc i))) vs' =
           take (Suc len) (vs[len := Some v]) @ map Some (?ws (Suc i))"
        by auto
      have "temperatures_loop type' source list vs len i = Inr (vs', len + length (?ws i))"
        by (subst temperatures_loop.simps) (simp add: True body r(1) ws)
      moreover have "take (len + length (?ws i)) vs' = take len vs @ map Some (?ws i)"
        using r(3) by (simp add: ws tk)
      ultimately show ?thesis using r(2) by simp
    qed
  qed
qed

lemma cpuUsages_loop_eq:
  "i \<le> length list \<Longrightarrow> length arr = length list \<Longrightarrow>
   drop i arr = replicate (length list - i) None \<Longrightarrow>
   cpuUsages_loop c init list arr i =
     Inr (take i arr @
          map (\<lambda>u. if isOnline u then Some (NewObject c init (active u) (total u)) else None)
            (drop i list))"
proof (induction c init list arr i rule: cpuUsages_loop.induct)
  case (1 c init list arr i)
  let ?f = "\<lambda>u. if isOnline u then Some (NewObject c init (active u) (total u)) else None"
  show ?case
  proof (cases "i < length list")
    case False
    with "1.prems" show ?thesis
      by (subst cpuUsages_loop.simps) simp
  next
    case True
    have dr: "drop i list = list ! i # drop (Suc i) list"
      using True by (simp add: Cons_nth_drop_Suc)
    have dra: "drop i arr = arr ! i # drop (Suc i) arr"
      using True "1.prems" by (simp add: Cons_nth_drop_Suc)
    have rep: "replicate (length list - i) (None :: CpuUsageInfo option) =
        None # replicate (length list - Suc i) None"
      using True by (simp add: Suc_diff_Suc flip: replicate_Suc)
    from "1.prems"(3) dra rep
    have nul: "arr ! i = None" and rest: "drop (Suc i) arr = replicate (length list - Suc i) None"
      by simp_all
    show ?thesis
    proof (cases "isOnline (list ! i)")
      case False
      have ih: "cpuUsages_loop c init list arr (Suc i) =
          Inr (take (Suc i) arr @ map ?f (drop (Suc i) list))"
        using "1.IH"(2) [OF True False] True "1.prems"(2) rest by simp
      have tk: "take (Suc i) arr = take i arr @ [None]"
        using True "1.prems"(2) nul by (simp add: take_Suc_conv_app_nth)
      show ?thesis
        by (subst cpuUsages_loop.simps) (simp add: True False ih tk dr)
    next
      case online: True
      let ?obj = "NewObject c init (active (list ! i)) (total (list ! i))"
      have st: "SetObjectArrayElement arr i ?obj = Inr (arr[i := Some ?obj])"
        using True "1.prems"(2) by (simp add: SetObjectArrayElement_def)
      have ih: "cpuUsages_loop c init list (arr[i := Some ?obj]) (Suc i) =
          Inr (take (Suc i) (arr[i := Some ?obj]) @ map ?f (drop (Suc i) list))"
        using "1.IH"(1) [OF True online st] True "1.prems"(2) rest by simp
      have tk: "take (Suc i) (arr[i := Some ?obj]) = take i arr @ [Some ?obj]"
        using True "1.prems"(2) by (simp add: take_Suc_update)
      show ?thesis
        by (subst cpuUsages_loop.simps) (simp add: True online st ih tk dr)
    qed
  qed
qed

section \<open>The remote call and the copies into the Java arrays\<close>

lemma remote_call_SUCCESS:
  "code status = SUCCESS \<Longrightarrow> remote_call a b (Invoked status xs) g = (xs, g)"
  by (simp add: remote_call_def callback_def)

lemma remote_call_failed:
  "\<not> reports_success r \<Longrightarrow> fst (remote_call a b r g) = []"
  by (cases r) (simp_all add: remote_call_def callback_def reports_success_def Let_def)

lemma remote_call_frame:
  "\<exists>lines. snd (remote_call a b r g) = g\<lparr>logcat := logcat g @ lines\<rparr>"
proof (cases r)
  case (Invoked status xs)
  show ?thesis
  proof (cases "code status = SUCCESS")
    case True
    then have "snd (remote_call a b r g) = g\<lparr>logcat := logcat g @ []\<rparr>"
      by (simp add: Invoked remote_call_SUCCESS)
    then show ?thesis ..
  next
    case False
    then have "snd (remote_call a b r g) = g\<lparr>logcat := logcat g @ [(a, [Str (debugMessage status)])]\<rparr>"
      by (simp add: Invoked remote_call_def callback_def ALOGE_def)
    then show ?thesis ..
  qed
next
  case (NotInvoked s)
  show ?thesis
  proof (cases "isOk s")
    case True
    then have "snd (remote_call a b r g) = g\<lparr>logcat := logcat g @ []\<rparr>"
      by (simp add: NotInvoked remote_call_def)
    then show ?thesis ..
  next
    case False
    then have "snd (remote_call a b r g) = g\<lparr>logcat := logcat g @ [(b, [Dec (exceptionCode s)])]\<rparr>"
      by (simp add: NotInvoked remote_call_def ALOGE_def)
    then show ?thesis ..
  qed
qed

lemma SetFloatArrayRegion_whole:
  "take n buf = map Some ws \<Longrightarrow> length ws = n \<Longrightarrow>
   SetFloatArrayRegion (NewFloatArray n) 0 n buf = Inr ws"
proof -
  assume tk: "take n buf = map Some ws" and n: "length ws = n"
  have "length (take n buf) = n" using tk n by simp
  then have le: "n \<le> length buf" by simp
  have "None \<notin> set (take n buf)" using tk by auto
  moreover have "map the (take n buf) = ws" using tk by (simp add: comp_def)
  ultimately show ?thesis
    using le by (simp add: SetFloatArrayRegion_def NewFloatArray_def)
qed

lemma fanSpeeds_copy:
  "(case fanSpeeds_loop list (vla (length list)) 0 of
      Inl e \<Rightarrow> (Inl e, g1)
    | Inr vs \<Rightarrow> (SetFloatArrayRegion (NewFloatArray (length list)) 0 (length list) vs, g1))
   = (Inr (map CoolingDevice.currentValue list), g1)"
proof -
  have "fanSpeeds_loop list (vla (length list)) 0 =
      Inr (map (\<lambda>d. Some (CoolingDevice.currentValue d)) list)"
    using fanSpeeds_loop_eq [of 0 list "vla (length list)"] by (simp add: vla_def)
  moreover have "SetFloatArrayRegion (NewFloatArray (length list)) 0 (length list)
      (map (\<lambda>d. Some (CoolingDevice.currentValue d)) list) = Inr (map CoolingDevice.currentValue list)"
    by (rule SetFloatArrayRegion_whole) (simp_all add: comp_def)
  ultimately show ?thesis by simp
qed

lemma nativeGetFanSpeeds_bound:
  "gThermalModule g = Some m \<Longrightarrow>
   nativeGetFanSpeeds getCoolingDevices g =
     (Inr (map CoolingDevice.currentValue
        (fst (remote_call ''Couldn't get fan speeds because of HAL error: %s''
               ''getCoolingDevices failed status: %d'' (getCoolingDevices m) g))),
      snd (remote_call ''Couldn't get fan speeds because of HAL error: %s''
               ''getCoolingDevices failed status: %d'' (getCoolingDevices m) g))"
  by (simp add: nativeGetFanSpeeds_def fanSpeeds_copy split_beta)

lemma temperatures_copy:
  "(case temperatures_loop type' source list (vla (length list)) 0 0 of
      Inl e \<Rightarrow> (Inl e, g1)
    | Inr (vs, len) \<Rightarrow> (SetFloatArrayRegion (NewFloatArray len) 0 len vs, g1))
   = (Inr (List.map_filter (written type' source) list), g1)"
proof -
  obtain vs' where
    "temperatures_loop type' source list (vla (length list)) 0 0 =
       Inr (vs', length (List.map_filter (written type' source) list))"
    "take (length (List.map_filter (written type' source) list)) vs' =
       map Some (List.map_filter (written type' source) list)"
    using temperatures_loop_eq [of 0 0 list "vla (length list)" type' source]
    by (auto simp: vla_def)
  then show ?thesis
    by (simp add: SetFloatArrayRegion_whole)
qed

lemma nativeGetDeviceTemperatures_bound:
  "gThermalModule g = Some m \<Longrightarrow>
   nativeGetDeviceTemperatures getTemperatures type' source g =
     (Inr (List.map_filter (written type' source)
        (fst (remote_call ''Couldn't get temperatures because of HAL error: %s''
               ''getDeviceTemperatures failed status: %d'' (getTemperatures m) g))),
      snd (remote_call ''Couldn't get temperatures because of HAL error: %s''
               ''getDeviceTemperatures failed status: %d'' (getTemperatures m) g))"
  by (simp add: nativeGetDeviceTemperatures_def temperatures_copy split_beta)

lemma cpuUsages_fill:
  "cpuUsages_loop c init list (NewObjectArray (length list) c None) 0 =
     Inr (map (\<lambda>u. if isOnline u then Some \<lparr>mActive = active u, mTotal = total u\<rparr> else None) list)"
  using cpuUsages_loop_eq [of 0 list "NewObjectArray (length list) c None" c init]
  by (simp add: NewObjectArray_def NewObject_def)

lemma nativeGetCpuUsages_bound:
  "gThermalModule g = Some m \<Longrightarrow> initMethod (gCpuUsageInfoClassInfo g) = Some init \<Longrightarrow>
   nativeGetCpuUsages getCpuUsages g =
     (Inr (map (\<lambda>u. if isOnline u then Some \<lparr>mActive = active u, mTotal = total u\<rparr> else None)
        (fst (remote_call ''Couldn't get CPU usages because of HAL error: %s''
               ''getCpuUsages failed status: %d'' (getCpuUsages m) g))),
      snd (remote_call ''Couldn't get CPU usages because of HAL error: %s''
               ''getCpuUsages failed status: %d'' (getCpuUsages m) g))"
  by (simp add: nativeGetCpuUsages_def cpuUsages_fill split_beta Let_def)

lemma nativeGetCpuUsages_guard:
  "gThermalModule g = None \<or> initMethod (gCpuUsageInfoClassInfo g) = None \<Longrightarrow>
   nativeGetCpuUsages getCpuUsages g =
     (Inr [], ALOGE ''Couldn't get CPU usages because of HAL error.'' [] g)"
  by (auto simp: nativeGetCpuUsages_def NewObjectArray_def split: option.splits)

section \<open>Fan speeds\<close>

text \<open>
  Claim C2. With a bound handle and a reply of the service with status \<open>SUCCESS\<close>,
  \<^verbatim>\<open>nativeGetFanSpeeds\<close> returns the current values of the cooling devices, one per
  device and in the order of the reply (and logs nothing): for the values 12.5 and 30 it
  returns 12.5 and 30 in that order.
\<close>

theorem nativeGetFanSpeeds_values:
  assumes "gThermalModule g = Some m"
    and "getCoolingDevices m = Invoked status devices"
    and "code status = SUCCESS"
  shows "nativeGetFanSpeeds getCoolingDevices g = (Inr (map CoolingDevice.currentValue devices), g)"
  using assms by (simp add: nativeGetFanSpeeds_bound remote_call_SUCCESS)

theorem nativeGetFanSpeeds_values_witness:
  "gThermalModule example_globals = Some 7 \<and> code ok = SUCCESS \<and>
   nativeGetFanSpeeds (\<lambda>m. Invoked ok example_devices) example_globals =
     (Inr [12.5, 30], example_globals)"
  using nativeGetFanSpeeds_values [of example_globals 7 "\<lambda>m. Invoked ok example_devices" ok example_devices]
  by (simp add: example_globals_def ok_def example_devices_def)

section \<open>Device temperatures\<close>

lemma map_filter_if:
  "List.map_filter (\<lambda>x. if P x then Some (f x) else None) xs = map f (filter P xs)"
  by (induction xs) simp_all

lemma written_sources:
  "written type' 0 = (\<lambda>t. if Temperature.type t = type' then Some (Temperature.currentValue t) else None)"
  "written type' 1 = (\<lambda>t. if Temperature.type t = type' then Some (throttlingThreshold t) else None)"
  "written type' 2 = (\<lambda>t. if Temperature.type t = type' then Some (shutdownThreshold t) else None)"
  "written type' 3 = (\<lambda>t. if Temperature.type t = type' then Some (vrThrottlingThreshold t) else None)"
  by (simp_all add: written_def fun_eq_iff TEMPERATURE_CURRENT_def TEMPERATURE_THROTTLING_def
      TEMPERATURE_SHUTDOWN_def TEMPERATURE_THROTTLING_BELOW_VR_MIN_def)

lemma written_unrecognized:
  "source \<notin> {0, 1, 2, 3} \<Longrightarrow> written type' source t = None"
  by (simp add: written_def TEMPERATURE_CURRENT_def TEMPERATURE_THROTTLING_def
      TEMPERATURE_SHUTDOWN_def TEMPERATURE_THROTTLING_BELOW_VR_MIN_def)

lemma map_filter_None:
  "(\<And>x. f x = None) \<Longrightarrow> List.map_filter f xs = []"
  by (induction xs) simp_all

lemma length_map_filter_le:
  "length (List.map_filter f xs) \<le> length xs"
  by (induction xs) (simp_all split: option.split)

lemma temperatures_SUCCESS:
  assumes "gThermalModule g = Some m"
    and "getTemperatures m = Invoked status temps"
    and "code status = SUCCESS"
  shows "nativeGetDeviceTemperatures getTemperatures type' source g =
     (Inr (List.map_filter (written type' source) temps), g)"
  using assms by (simp add: nativeGetDeviceTemperatures_bound remote_call_SUCCESS)

text \<open>
  Claim C1. With a bound handle and a reply of the service with status \<open>SUCCESS\<close>,
  \<^verbatim>\<open>nativeGetDeviceTemperatures\<close> returns, for the readings whose type equals the
  queried type and in the order of the reply, the current value for source 0, the
  throttling threshold for source 1, the shutdown threshold for source 2 and the VR-mode
  throttling threshold for source 3. In particular, for a reply whose types are A, A, B
  and a source among 0 to 3, a query of type A returns two values and a query of a third
  type C returns none.
\<close>

theorem nativeGetDeviceTemperatures_filters_and_selects:
  assumes "gThermalModule g = Some m"
    and "getTemperatures m = Invoked status temps"
    and "code status = SUCCESS"
  shows "fst (nativeGetDeviceTemperatures getTemperatures type' 0 g) =
           Inr (map Temperature.currentValue (filter (\<lambda>t. Temperature.type t = type') temps))
       \<and> fst (nativeGetDeviceTemperatures getTemperatures type' 1 g) =
           Inr (map throttlingThreshold (filter (\<lambda>t. Temperature.type t = type') temps))
       \<and> fst (nativeGetDeviceTemperatures getTemperatures type' 2 g) =
           Inr (map shutdownThreshold (filter (\<lambda>t. Temperature.type t = type') temps))
       \<and> fst (nativeGetDeviceTemperatures getTemperatures type' 3 g) =
           Inr (map vrThrottlingThreshold (filter (\<lambda>t. Temperature.type t = type') temps))
       \<and> (source \<in> {0, 1, 2, 3} \<and> map Temperature.type temps = [A, A, B]
            \<and> A \<noteq> B \<and> C \<noteq> A \<and> C \<noteq> B \<longrightarrow>
          (\<exists>vs. fst (nativeGetDeviceTemperatures getTemperatures A source g) = Inr vs \<and> length vs = 2)
          \<and> fst (nativeGetDeviceTemperatures getTemperatures C source g) = Inr [])"
proof -
  have sel: "fst (nativeGetDeviceTemperatures getTemperatures ty src g) =
      Inr (List.map_filter (written ty src) temps)" for ty src
    using assms by (simp add: temperatures_SUCCESS)
  have AAB: "(\<exists>vs. fst (nativeGetDeviceTemperatures getTemperatures A source g) = Inr vs \<and> length vs = 2)
      \<and> fst (nativeGetDeviceTemperatures getTemperatures C source g) = Inr []"
    if src: "source \<in> {0, 1, 2, 3}" and tys: "map Temperature.type temps = [A, A, B]"
      and ne: "A \<noteq> B" "C \<noteq> A" "C \<noteq> B"
  proof -
    from tys obtain t1 t2 t3 where temps: "temps = [t1, t2, t3]"
      and t: "Temperature.type t1 = A" "Temperature.type t2 = A" "Temperature.type t3 = B"
      by (auto simp: map_eq_Cons_conv)
    from src have "source = 0 \<or> source = 1 \<or> source = 2 \<or> source = 3" by simp
    then show ?thesis
      using t ne by (auto simp: sel temps written_sources)
  qed
  show ?thesis
    using AAB by (simp add: sel written_sources map_filter_if)
qed

theorem nativeGetDeviceTemperatures_filters_and_selects_witness:
  "gThermalModule example_globals = Some 7 \<and> code ok = SUCCESS
   \<and> fst (nativeGetDeviceTemperatures (\<lambda>m. Invoked ok example_temperatures) 1 1 example_globals) = Inr [60]
   \<and> (1::32 word) \<in> {0, 1, 2, 3} \<and> map Temperature.type AAB_temperatures = [4, 4, 5]
   \<and> (\<exists>vs. fst (nativeGetDeviceTemperatures (\<lambda>m. Invoked ok AAB_temperatures) 4 1 example_globals) = Inr vs
         \<and> length vs = 2)
   \<and> fst (nativeGetDeviceTemperatures (\<lambda>m. Invoked ok AAB_temperatures) 6 1 example_globals) = Inr []"
  using nativeGetDeviceTemperatures_filters_and_selects
      [of example_globals 7 "\<lambda>m. Invoked ok example_temperatures" ok example_temperatures 1]
    nativeGetDeviceTemperatures_filters_and_selects
      [of example_globals 7 "\<lambda>m. Invoked ok AAB_temperatures" ok AAB_temperatures 1 1 4 5 6]
  by (simp add: example_globals_def ok_def example_temperatures_def AAB_temperatures_def)

text \<open>
  Claim C8. For a source outside 0 to 3, \<^verbatim>\<open>nativeGetDeviceTemperatures\<close> returns the
  empty array and no fault, whatever the state and the reply; when the handle is bound and
  the service reports success, nothing is logged either, although the reply may hold
  readings of the queried type.
\<close>

theorem nativeGetDeviceTemperatures_unrecognized_source:
  assumes "source \<notin> {0, 1, 2, 3}"
  shows "fst (nativeGetDeviceTemperatures getTemperatures type' source g) = Inr []
       \<and> (gThermalModule g = Some m \<and> reports_success (getTemperatures m) \<longrightarrow>
            nativeGetDeviceTemperatures getTemperatures type' source g = (Inr [], g))"
proof -
  have none: "List.map_filter (written type' source) xs = []" for xs :: "'a Temperature list"
    by (rule map_filter_None) (rule written_unrecognized [OF assms])
  have "fst (nativeGetDeviceTemperatures getTemperatures type' source g) = Inr []"
  proof (cases "gThermalModule g")
    case None
    then show ?thesis by (simp add: nativeGetDeviceTemperatures_def NewFloatArray_def)
  next
    case (Some h)
    then show ?thesis by (simp add: nativeGetDeviceTemperatures_bound none)
  qed
  moreover have "nativeGetDeviceTemperatures getTemperatures type' source g = (Inr [], g)"
    if "gThermalModule g = Some m" and "reports_success (getTemperatures m)"
  proof -
    from that(2) obtain status temps where
      "getTemperatures m = Invoked status temps" "code status = SUCCESS"
      by (cases "getTemperatures m") (simp_all add: reports_success_def)
    with that(1) show ?thesis by (simp add: temperatures_SUCCESS none)
  qed
  ultimately show ?thesis by blast
qed

theorem nativeGetDeviceTemperatures_unrecognized_source_witness:
  "(4::32 word) \<notin> {0, 1, 2, 3} \<and> gThermalModule example_globals = Some 7
   \<and> reports_success (Invoked ok example_temperatures)
   \<and> nativeGetDeviceTemperatures (\<lambda>m. Invoked ok example_temperatures) 1 4 example_globals =
       (Inr [], example_globals)
   \<and> (- 1::32 word) \<notin> {0, 1, 2, 3}
   \<and> fst (nativeGetDeviceTemperatures (\<lambda>m. Invoked ok example_temperatures) 1 (- 1) example_globals) = Inr []"
  using nativeGetDeviceTemperatures_unrecognized_source
      [of 4 "\<lambda>m. Invoked ok example_temperatures" 1 example_globals 7]
    nativeGetDeviceTemperatures_unrecognized_source
      [of "- 1" "\<lambda>m. Invoked ok example_temperatures" 1 example_globals 7]
  by (simp add: example_globals_def ok_def reports_success_def)

section \<open>Unavailable service\<close>

text \<open>
  Claim C3. When the handle is unbound, or the remote call does not report success (its
  callback ran with a code other than \<open>SUCCESS\<close>, or the call mechanism failed and the
  callback never ran), each of the three queries returns the empty array and no fault.
\<close>

theorem queries_empty_when_unavailable:
  "(unavailable g getCoolingDevices \<longrightarrow>
      fst (nativeGetFanSpeeds getCoolingDevices g) = Inr [])
   \<and> (unavailable g getTemperatures \<longrightarrow>
      fst (nativeGetDeviceTemperatures getTemperatures type' source g) = Inr [])
   \<and> (unavailable g getCpuUsages \<longrightarrow>
      fst (nativeGetCpuUsages getCpuUsages g) = Inr [])"
proof (cases "gThermalModule g")
  case None
  then show ?thesis
    by (simp add: nativeGetFanSpeeds_def nativeGetDeviceTemperatures_def nativeGetCpuUsages_guard
        NewFloatArray_def)
next
  case (Some m)
  have fan: "fst (nativeGetFanSpeeds getCoolingDevices g) = Inr []"
    if "\<not> reports_success (getCoolingDevices m)"
    using that Some by (simp add: nativeGetFanSpeeds_bound remote_call_failed)
  have temp: "fst (nativeGetDeviceTemperatures getTemperatures type' source g) = Inr []"
    if "\<not> reports_success (getTemperatures m)"
    using that Some by (simp add: nativeGetDeviceTemperatures_bound remote_call_failed)
  have cpu: "fst (nativeGetCpuUsages getCpuUsages g) = Inr []"
    if f: "\<not> reports_success (getCpuUsages m)"
  proof (cases "initMethod (gCpuUsageInfoClassInfo g)")
    case None
    then show ?thesis by (simp add: nativeGetCpuUsages_guard)
  next
    case (Some init)
    with \<open>gThermalModule g = Some m\<close> f show ?thesis
      by (simp add: nativeGetCpuUsages_bound remote_call_failed)
  qed
  from fan temp cpu Some show ?thesis
    by (simp add: unavailable_def)
qed

theorem queries_empty_when_unavailable_witness:
  "unavailable unbound_globals (\<lambda>m. Invoked ok example_devices)
   \<and> fst (nativeGetFanSpeeds (\<lambda>m. Invoked ok example_devices) unbound_globals) = Inr []
   \<and> unavailable example_globals (\<lambda>m. Invoked failure example_temperatures)
   \<and> fst (nativeGetDeviceTemperatures (\<lambda>m. Invoked failure example_temperatures) 1 1 example_globals) = Inr []
   \<and> unavailable example_globals (\<lambda>m. NotInvoked dead_object :: CpuUsage hal_return)
   \<and> fst (nativeGetCpuUsages (\<lambda>m. NotInvoked dead_object) example_globals) = Inr []"
  using queries_empty_when_unavailable
      [of unbound_globals "\<lambda>m. Invoked ok example_devices"
          "\<lambda>m. Invoked failure example_temperatures" 1 1 "\<lambda>m. NotInvoked dead_object"]
    queries_empty_when_unavailable
      [of example_globals "\<lambda>m. Invoked failure example_devices"
          "\<lambda>m. Invoked failure example_temperatures" 1 1 "\<lambda>m. NotInvoked dead_object"]
  by (simp add: unavailable_def reports_success_def unbound_globals_def example_globals_def
      failure_def ok_def)

section \<open>Initialization\<close>

lemma nativeInit_handle:
  "gThermalModule (nativeInit getService g) =
     (case gThermalModule g of None \<Rightarrow> getService ''thermal'' | Some m \<Rightarrow> Some m)"
  by (simp add: nativeInit_def ALOGE_def Let_def split: option.split)

lemma nativeInit_bound:
  "gThermalModule g = Some m \<Longrightarrow> nativeInit getService g = g"
  by (simp add: nativeInit_def)

text \<open>
  Claim C4. With the service lookup answering the same way at every call, the handle
  after N calls of \<^verbatim>\<open>nativeInit\<close>, for N at least 1, is the handle after one call; and a
  call in a state whose handle is bound changes nothing, whatever the lookup would
  answer: the cached handle is not replaced.
\<close>

theorem nativeInit_idempotent:
  "(1 \<le> N \<longrightarrow>
      gThermalModule ((nativeInit getService ^^ N) g) = gThermalModule (nativeInit getService g))
   \<and> (gThermalModule g = Some m \<longrightarrow> nativeInit getService' g = g)"
proof -
  have "gThermalModule ((nativeInit getService ^^ Suc k) g) =
      gThermalModule (nativeInit getService g)" for k
  proof (induction k)
    case 0
    show ?case by simp
  next
    case (Suc k)
    have "gThermalModule ((nativeInit getService ^^ Suc (Suc k)) g) =
        gThermalModule (nativeInit getService ((nativeInit getService ^^ Suc k) g))"
      by simp
    also have "\<dots> = (case gThermalModule (nativeInit getService g) of
        None \<Rightarrow> getService ''thermal'' | Some m \<Rightarrow> Some m)"
      by (simp only: nativeInit_handle Suc.IH)
    also have "\<dots> = gThermalModule (nativeInit getService g)"
      by (simp add: nativeInit_handle split: option.split)
    finally show ?case .
  qed
  then have "1 \<le> N \<Longrightarrow>
      gThermalModule ((nativeInit getService ^^ N) g) = gThermalModule (nativeInit getService g)"
    by (cases N) simp_all
  then show ?thesis
    by (simp add: nativeInit_bound)
qed

theorem nativeInit_idempotent_witness:
  "(1::nat) \<le> 3
   \<and> gThermalModule ((nativeInit (\<lambda>name. if name = ''thermal'' then Some 7 else None) ^^ 3)
        unbound_globals) = Some 7
   \<and> gThermalModule (nativeInit (\<lambda>name. if name = ''thermal'' then Some 7 else None)
        unbound_globals) = Some 7
   \<and> gThermalModule example_globals = Some 7
   \<and> nativeInit (\<lambda>name. Some 8) example_globals = example_globals"
  using nativeInit_idempotent
      [of 3 "\<lambda>name. if name = ''thermal'' then Some 7 else None" unbound_globals 7 "\<lambda>name. Some 8"]
    nativeInit_idempotent
      [of 3 "\<lambda>name. if name = ''thermal'' then Some 7 else None" example_globals 7 "\<lambda>name. Some 8"]
  by (simp add: nativeInit_handle unbound_globals_def example_globals_def)

lemma cpuUsages_SUCCESS:
  assumes "gThermalModule g = Some m"
    and "initMethod (gCpuUsageInfoClassInfo g) = Some init"
    and "getCpuUsages m = Invoked status usages"
    and "code status = SUCCESS"
  shows "nativeGetCpuUsages getCpuUsages g =
     (Inr (map (\<lambda>u. if isOnline u then Some \<lparr>mActive = active u, mTotal = total u\<rparr> else None)
        usages), g)"
  using assms by (simp add: nativeGetCpuUsages_bound remote_call_SUCCESS)

section \<open>CPU usages\<close>

text \<open>
  Claim C5. With a bound handle, a resolved constructor and a reply of the service with
  status \<open>SUCCESS\<close>, \<^verbatim>\<open>nativeGetCpuUsages\<close> returns an array with one slot per entry of
  the reply: the slot of an online core holds the object built from that core's active and
  total times, the slot of an offline core is \<^verbatim>\<open>null\<close>. The array is not compacted, and
  every object in it is built from the online entry at its own position.
\<close>

theorem nativeGetCpuUsages_positions:
  assumes "gThermalModule g = Some m"
    and "initMethod (gCpuUsageInfoClassInfo g) = Some init"
    and "getCpuUsages m = Invoked status usages"
    and "code status = SUCCESS"
  shows "\<exists>cpuUsages. fst (nativeGetCpuUsages getCpuUsages g) = Inr cpuUsages
     \<and> length cpuUsages = length usages
     \<and> (\<forall>i < length usages.
          (isOnline (usages ! i) \<longrightarrow>
             cpuUsages ! i = Some \<lparr>mActive = active (usages ! i), mTotal = total (usages ! i)\<rparr>)
          \<and> (\<not> isOnline (usages ! i) \<longrightarrow> cpuUsages ! i = None))
     \<and> (\<forall>i obj. i < length cpuUsages \<and> cpuUsages ! i = Some obj \<longrightarrow>
          isOnline (usages ! i) \<and> mActive obj = active (usages ! i) \<and> mTotal obj = total (usages ! i))"
proof -
  let ?f = "\<lambda>u. if isOnline u then Some \<lparr>mActive = active u, mTotal = total u\<rparr> else None"
  have "fst (nativeGetCpuUsages getCpuUsages g) = Inr (map ?f usages)"
    using assms by (simp add: cpuUsages_SUCCESS)
  moreover have "length (map ?f usages) = length usages"
    by simp
  moreover have "\<forall>i < length usages.
      (isOnline (usages ! i) \<longrightarrow>
         map ?f usages ! i = Some \<lparr>mActive = active (usages ! i), mTotal = total (usages ! i)\<rparr>)
      \<and> (\<not> isOnline (usages ! i) \<longrightarrow> map ?f usages ! i = None)"
    by simp
  moreover have "\<forall>i obj. i < length (map ?f usages) \<and> map ?f usages ! i = Some obj \<longrightarrow>
      isOnline (usages ! i) \<and> mActive obj = active (usages ! i) \<and> mTotal obj = total (usages ! i)"
    by (auto split: if_splits)
  ultimately show ?thesis
    by blast
qed

theorem nativeGetCpuUsages_positions_witness:
  "gThermalModule example_globals = Some 7
   \<and> initMethod (gCpuUsageInfoClassInfo example_globals) = Some 2
   \<and> code ok = SUCCESS
   \<and> (\<exists>cpuUsages. fst (nativeGetCpuUsages (\<lambda>m. Invoked ok example_usages) example_globals) = Inr cpuUsages
        \<and> length cpuUsages = 2
        \<and> cpuUsages ! 0 = Some \<lparr>mActive = 100, mTotal = 200\<rparr>
        \<and> cpuUsages ! 1 = None)"
proof -
  have h: "gThermalModule example_globals = Some 7"
    "initMethod (gCpuUsageInfoClassInfo example_globals) = Some 2"
    "(\<lambda>m. Invoked ok example_usages) (7::nat) = Invoked ok example_usages"
    "code ok = SUCCESS"
    by (simp_all add: example_globals_def ok_def)
  from nativeGetCpuUsages_positions [of example_globals 7 2 "\<lambda>m. Invoked ok example_usages" ok example_usages, OF h]
  obtain cpuUsages where r:
    "fst (nativeGetCpuUsages (\<lambda>m. Invoked ok example_usages) example_globals) = Inr cpuUsages"
    "length cpuUsages = length example_usages"
    "\<forall>i < length example_usages.
          (isOnline (example_usages ! i) \<longrightarrow>
             cpuUsages ! i = Some \<lparr>mActive = active (example_usages ! i), mTotal = total (example_usages ! i)\<rparr>)
          \<and> (\<not> isOnline (example_usages ! i) \<longrightarrow> cpuUsages ! i = None)"
    by blast
  from r(3) have "cpuUsages ! 0 = Some \<lparr>mActive = 100, mTotal = 200\<rparr>" "cpuUsages ! 1 = None"
    by (simp_all add: example_usages_def)
  with r(1,2) h show ?thesis
    by (simp add: example_usages_def)
qed

text \<open>
  Claim C6. For the reply with an online core (active 100, total 200) followed by an
  offline core (active 5, total 10), \<^verbatim>\<open>nativeGetCpuUsages\<close> returns an array that holds
  one object, with active 100 and total 200: the object is in the first slot and the
  second slot, that of the offline core, is \<^verbatim>\<open>null\<close>.
\<close>

theorem nativeGetCpuUsages_end_to_end:
  assumes "gThermalModule g = Some m"
    and "initMethod (gCpuUsageInfoClassInfo g) = Some init"
    and "getCpuUsages m = Invoked status
           [\<lparr>active = 100, total = 200, isOnline = True\<rparr>,
            \<lparr>active = 5, total = 10, isOnline = False\<rparr>]"
    and "code status = SUCCESS"
  shows "\<exists>cpuUsages. fst (nativeGetCpuUsages getCpuUsages g) = Inr cpuUsages
     \<and> cpuUsages = [Some \<lparr>mActive = 100, mTotal = 200\<rparr>, None]
     \<and> List.map_filter id cpuUsages = [\<lparr>mActive = 100, mTotal = 200\<rparr>]"
  using assms by (simp add: cpuUsages_SUCCESS)

theorem nativeGetCpuUsages_end_to_end_witness:
  "gThermalModule example_globals = Some 7
   \<and> initMethod (gCpuUsageInfoClassInfo example_globals) = Some 2
   \<and> code ok = SUCCESS
   \<and> fst (nativeGetCpuUsages (\<lambda>m. Invoked ok example_usages) example_globals) =
       Inr [Some \<lparr>mActive = 100, mTotal = 200\<rparr>, None]"
  using nativeGetCpuUsages_end_to_end [of example_globals 7 2 "\<lambda>m. Invoked ok example_usages" ok]
  by (simp add: example_globals_def ok_def example_usages_def)

text \<open>
  Claim C7. When the constructor of the result class is not resolved, \<^verbatim>\<open>nativeGetCpuUsages\<close>
  returns the empty array and no fault and logs one error line, whatever the service would
  reply. So an array that holds an object is returned only in a state whose constructor is
  resolved.
\<close>

theorem nativeGetCpuUsages_needs_constructor:
  "(initMethod (gCpuUsageInfoClassInfo g) = None \<longrightarrow>
      nativeGetCpuUsages getCpuUsages g =
        (Inr [], g\<lparr>logcat := logcat g @ [(''Couldn't get CPU usages because of HAL error.'', [])]\<rparr>))
   \<and> (fst (nativeGetCpuUsages getCpuUsages g) = Inr cpuUsages \<and> Some obj \<in> set cpuUsages \<longrightarrow>
        initMethod (gCpuUsageInfoClassInfo g) \<noteq> None)"
proof (cases "initMethod (gCpuUsageInfoClassInfo g)")
  case None
  then have "nativeGetCpuUsages getCpuUsages g =
      (Inr [], g\<lparr>logcat := logcat g @ [(''Couldn't get CPU usages because of HAL error.'', [])]\<rparr>)"
    by (simp add: nativeGetCpuUsages_guard ALOGE_def)
  then show ?thesis
    by auto
next
  case (Some init)
  then show ?thesis
    by simp
qed

theorem nativeGetCpuUsages_needs_constructor_witness:
  "initMethod (gCpuUsageInfoClassInfo unresolved_globals) = None
   \<and> nativeGetCpuUsages (\<lambda>m. Invoked ok example_usages) unresolved_globals =
       (Inr [], unresolved_globals
          \<lparr>logcat := [(''Couldn't get CPU usages because of HAL error.'', [])]\<rparr>)
   \<and> fst (nativeGetCpuUsages (\<lambda>m. Invoked ok example_usages) example_globals) =
       Inr [Some \<lparr>mActive = 100, mTotal = 200\<rparr>, None]
   \<and> Some \<lparr>mActive = 100, mTotal = 200\<rparr> \<in> set [Some \<lparr>mActive = 100, mTotal = 200\<rparr>, None]
   \<and> initMethod (gCpuUsageInfoClassInfo example_globals) \<noteq> None"
proof -
  have "nativeGetCpuUsages (\<lambda>m. Invoked ok example_usages) example_globals =
      (Inr (map (\<lambda>u. if isOnline u then Some \<lparr>mActive = active u, mTotal = total u\<rparr> else None)
         example_usages), example_globals)"
    by (rule cpuUsages_SUCCESS [of example_globals 7 2 _ ok])
      (simp_all add: example_globals_def ok_def)
  then have run: "fst (nativeGetCpuUsages (\<lambda>m. Invoked ok example_usages) example_globals) =
      Inr [Some \<lparr>mActive = 100, mTotal = 200\<rparr>, None]"
    by (simp add: example_usages_def)
  from nativeGetCpuUsages_needs_constructor
      [of unresolved_globals "\<lambda>m. Invoked ok example_usages"]
    nativeGetCpuUsages_needs_constructor
      [of example_globals "\<lambda>m. Invoked ok example_usages"
          "[Some \<lparr>mActive = 100, mTotal = 200\<rparr>, None]" "\<lparr>mActive = 100, mTotal = 200\<rparr>"]
    run
  show ?thesis
    by (simp add: unresolved_globals_def)
qed

section \<open>The frame of the queries\<close>

lemma nativeGetFanSpeeds_frame:
  "\<exists>lines. snd (nativeGetFanSpeeds getCoolingDevices g) = g\<lparr>logcat := logcat g @ lines\<rparr>"
proof (cases "gThermalModule g")
  case None
  then have "snd (nativeGetFanSpeeds getCoolingDevices g) =
      g\<lparr>logcat := logcat g @ [(''Couldn't get fan speeds because of HAL error.'', [])]\<rparr>"
    by (simp add: nativeGetFanSpeeds_def ALOGE_def)
  then show ?thesis ..
next
  case (Some m)
  then show ?thesis
    by (simp add: nativeGetFanSpeeds_bound remote_call_frame)
qed

lemma nativeGetDeviceTemperatures_frame:
  "\<exists>lines. snd (nativeGetDeviceTemperatures getTemperatures type' source g) =
     g\<lparr>logcat := logcat g @ lines\<rparr>"
proof (cases "gThermalModule g")
  case None
  then have "snd (nativeGetDeviceTemperatures getTemperatures type' source g) =
      g\<lparr>logcat := logcat g @ [(''Couldn't get device temperatures because of HAL error.'', [])]\<rparr>"
    by (simp add: nativeGetDeviceTemperatures_def ALOGE_def)
  then show ?thesis ..
next
  case (Some m)
  then show ?thesis
    by (simp add: nativeGetDeviceTemperatures_bound remote_call_frame)
qed

lemma nativeGetCpuUsages_frame:
  "\<exists>lines. snd (nativeGetCpuUsages getCpuUsages g) = g\<lparr>logcat := logcat g @ lines\<rparr>"
proof (cases "gThermalModule g = None \<or> initMethod (gCpuUsageInfoClassInfo g) = None")
  case True
  then have "snd (nativeGetCpuUsages getCpuUsages g) =
      g\<lparr>logcat := logcat g @ [(''Couldn't get CPU usages because of HAL error.'', [])]\<rparr>"
    by (simp add: nativeGetCpuUsages_guard ALOGE_def)
  then show ?thesis ..
next
  case False
  then obtain m init where "gThermalModule g = Some m"
    "initMethod (gCpuUsageInfoClassInfo g) = Some init"
    by auto
  then show ?thesis
    by (simp add: nativeGetCpuUsages_bound remote_call_frame)
qed

text \<open>
  Claim C9. Each of the three queries leaves the cached handle as it was: the state after
  a query is the state before it with lines appended to the log, so its handle is the
  handle before the call. \<^verbatim>\<open>nativeInit\<close> keeps a bound handle, so among the four native
  methods a bound handle never becomes unbound or another handle.
\<close>

theorem queries_keep_handle:
  "gThermalModule (snd (nativeGetFanSpeeds getCoolingDevices g)) = gThermalModule g
   \<and> gThermalModule (snd (nativeGetDeviceTemperatures getTemperatures type' source g)) = gThermalModule g
   \<and> gThermalModule (snd (nativeGetCpuUsages getCpuUsages g)) = gThermalModule g
   \<and> (\<exists>lines. snd (nativeGetFanSpeeds getCoolingDevices g) = g\<lparr>logcat := logcat g @ lines\<rparr>)
   \<and> (\<exists>lines. snd (nativeGetDeviceTemperatures getTemperatures type' source g) =
         g\<lparr>logcat := logcat g @ lines\<rparr>)
   \<and> (\<exists>lines. snd (nativeGetCpuUsages getCpuUsages g) = g\<lparr>logcat := logcat g @ lines\<rparr>)
   \<and> (gThermalModule g = Some m \<longrightarrow> gThermalModule (nativeInit getService g) = Some m)"
proof -
  have fan: "\<exists>lines. snd (nativeGetFanSpeeds getCoolingDevices g) = g\<lparr>logcat := logcat g @ lines\<rparr>"
    by (rule nativeGetFanSpeeds_frame)
  have temp: "\<exists>lines. snd (nativeGetDeviceTemperatures getTemperatures type' source g) =
      g\<lparr>logcat := logcat g @ lines\<rparr>"
    by (rule nativeGetDeviceTemperatures_frame)
  have cpu: "\<exists>lines. snd (nativeGetCpuUsages getCpuUsages g) = g\<lparr>logcat := logcat g @ lines\<rparr>"
    by (rule nativeGetCpuUsages_frame)
  have "gThermalModule (snd (nativeGetFanSpeeds getCoolingDevices g)) = gThermalModule g"
    using fan by auto
  moreover have "gThermalModule (snd (nativeGetDeviceTemperatures getTemperatures type' source g)) =
      gThermalModule g"
    using temp by auto
  moreover have "gThermalModule (snd (nativeGetCpuUsages getCpuUsages g)) = gThermalModule g"
    using cpu by auto
  moreover have "gThermalModule g = Some m \<longrightarrow> gThermalModule (nativeInit getService g) = Some m"
    by (simp add: nativeInit_handle)
  ultimately show ?thesis
    using fan temp cpu by blast
qed

theorem queries_keep_handle_witness:
  "gThermalModule (snd (nativeGetFanSpeeds (\<lambda>m. Invoked failure example_devices) example_globals)) = Some 7
   \<and> gThermalModule (snd (nativeGetDeviceTemperatures (\<lambda>m. Invoked ok example_temperatures) 1 1
         unbound_globals)) = None
   \<and> gThermalModule (snd (nativeGetCpuUsages (\<lambda>m. NotInvoked dead_object) example_globals)) = Some 7
   \<and> gThermalModule (nativeInit (\<lambda>name. None) example_globals) = Some 7"
  using queries_keep_handle
      [of "\<lambda>m. Invoked failure example_devices" example_globals
          "\<lambda>m. Invoked ok example_temperatures" 1 1 "\<lambda>m. NotInvoked dead_object" 7 "\<lambda>name. None"]
    queries_keep_handle
      [of "\<lambda>m. Invoked failure example_devices" unbound_globals
          "\<lambda>m. Invoked ok example_temperatures" 1 1 "\<lambda>m. NotInvoked dead_object" 7 "\<lambda>name. None"]
  by (simp add: example_globals_def unbound_globals_def)

section \<open>Bounds of the temperature buffer\<close>

text \<open>
  Claim C10. For every list of readings, type and source, the loop of
  \<^verbatim>\<open>nativeGetDeviceTemperatures\<close> over a buffer of as many cells as the list has readings
  ends without a fault, so no write is outside the buffer, and the number of values
  written is at most the number of readings; the copy of these values into the Java array
  succeeds. So \<^verbatim>\<open>nativeGetDeviceTemperatures\<close> never faults, and the array it returns is
  at most as long as the list that the service replied.
\<close>

theorem nativeGetDeviceTemperatures_in_bounds:
  "(\<exists>vs len arr. temperatures_loop type' source list (vla (length list)) 0 0 = Inr (vs, len)
       \<and> length vs = length list \<and> len \<le> length list
       \<and> SetFloatArrayRegion (NewFloatArray len) 0 len vs = Inr arr \<and> length arr = len)
   \<and> (\<exists>arr. fst (nativeGetDeviceTemperatures getTemperatures type' source g) = Inr arr
       \<and> (gThermalModule g = Some m \<and> getTemperatures m = Invoked status temps \<longrightarrow>
            length arr \<le> length temps))"
proof -
  let ?ws = "List.map_filter (written type' source) list"
  obtain vs where loop:
    "temperatures_loop type' source list (vla (length list)) 0 0 = Inr (vs, length ?ws)"
    "length vs = length list"
    "take (length ?ws) vs = map Some ?ws"
    using temperatures_loop_eq [of 0 0 list "vla (length list)" type' source]
    by (auto simp: vla_def)
  have "SetFloatArrayRegion (NewFloatArray (length ?ws)) 0 (length ?ws) vs = Inr ?ws"
    using loop(3) by (simp add: SetFloatArrayRegion_whole)
  with loop(1,2) have first:
    "\<exists>vs len arr. temperatures_loop type' source list (vla (length list)) 0 0 = Inr (vs, len)
       \<and> length vs = length list \<and> len \<le> length list
       \<and> SetFloatArrayRegion (NewFloatArray len) 0 len vs = Inr arr \<and> length arr = len"
    using length_map_filter_le [of "written type' source" list] by blast
  have second: "\<exists>arr. fst (nativeGetDeviceTemperatures getTemperatures type' source g) = Inr arr
       \<and> (gThermalModule g = Some m \<and> getTemperatures m = Invoked status temps \<longrightarrow>
            length arr \<le> length temps)"
  proof (cases "gThermalModule g")
    case None
    then show ?thesis
      by (simp add: nativeGetDeviceTemperatures_def NewFloatArray_def)
  next
    case (Some h)
    show ?thesis
    proof (cases "h = m \<and> getTemperatures m = Invoked status temps")
      case False
      with Some show ?thesis
        by (auto simp: nativeGetDeviceTemperatures_bound)
    next
      case True
      show ?thesis
      proof (cases "code status = SUCCESS")
        case s: True
        with True Some show ?thesis
          by (simp add: temperatures_SUCCESS length_map_filter_le)
      next
        case f: False
        then have "\<not> reports_success (getTemperatures m)"
          using True by (simp add: reports_success_def)
        with True Some show ?thesis
          by (simp add: nativeGetDeviceTemperatures_bound remote_call_failed)
      qed
    qed
  qed
  from first second show ?thesis ..
qed

theorem nativeGetDeviceTemperatures_in_bounds_witness:
  "gThermalModule example_globals = Some 7
   \<and> length AAB_temperatures = 3
   \<and> (\<exists>arr. fst (nativeGetDeviceTemperatures (\<lambda>m. Invoked ok AAB_temperatures) 4 2 example_globals) = Inr arr
        \<and> length arr \<le> 3)"
proof -
  have h: "gThermalModule example_globals = Some 7" "length AAB_temperatures = 3"
    by (simp_all add: example_globals_def AAB_temperatures_def)
  from nativeGetDeviceTemperatures_in_bounds
      [of 4 2 AAB_temperatures "\<lambda>m. Invoked ok AAB_temperatures" example_globals 7 ok AAB_temperatures]
  obtain arr where
    "fst (nativeGetDeviceTemperatures (\<lambda>m. Invoked ok AAB_temperatures) 4 2 example_globals) = Inr arr"
    "gThermalModule example_globals = Some 7 \<and>
       (\<lambda>m. Invoked ok AAB_temperatures) (7::nat) = Invoked ok AAB_temperatures \<longrightarrow>
     length arr \<le> length AAB_temperatures"
    by blast
  with h show ?thesis
    by simp
qed

end
